theory Spec2Isabelle
  imports Main
begin

section \<open>SQL values and errors\<close>

text \<open>
  The consultation core of the repository lives in the SQL migrations: table declarations,
  row-level security policies and trigger functions. Each table is a list of rows, each
  policy a predicate, each trigger function a function on rows, and each statement the
  client pages issue (\<open>.insert\<close>, \<open>.update ... .eq('id', x)\<close>, \<open>.select\<close>) a function
  from a database state to an error or a new state. The statements are those of the API
  roles, which are subject to row-level security.

  A \<open>UUID\<close> is a natural number, a \<open>TIMESTAMP WITH TIME ZONE\<close> an integer count of
  clock ticks, a \<open>DECIMAL(10,2)\<close> the integer number of hundredths (so \<open>50.00\<close> is
  \<open>5000\<close>), \<open>TEXT\<close> a byte string in UTF-8. A nullable column is an \<open>option\<close>; a
  column declared \<open>NOT NULL\<close> holds a plain value, and an assignment of \<open>NULL\<close> to it
  (which the store rejects before any write) is not represented.
\<close>

type_synonym uuid = nat
type_synonym sql_text = string
type_synonym timestamptz = int
type_synonym date = int
type_synonym time_of_day = nat
type_synonym decimal_10_2 = int

datatype pg_error =
    Insufficient_Privilege
  | Not_Null_Violation
  | Check_Violation
  | Unique_Violation
  | Foreign_Key_Violation

text \<open>
  What a statement reads from its session: \<open>auth.uid()\<close> (\<open>NULL\<close> for an
  unauthenticated request), \<open>now()\<close> and the value \<open>gen_random_uuid()\<close> delivers.
\<close>

record session =
  auth_uid :: "uuid option"
  now :: timestamptz
  gen_random_uuid :: uuid

text \<open>
  The \<open>=\<close> of a policy expression: a comparison with \<open>NULL\<close> is not true.
\<close>

definition sql_eq :: "'a option \<Rightarrow> 'a option \<Rightarrow> bool" where
  "sql_eq a b = (case a of None \<Rightarrow> False | Some x \<Rightarrow> (case b of None \<Rightarrow> False | Some y \<Rightarrow> x = y))"

definition coalesce :: "'a option \<Rightarrow> 'a \<Rightarrow> 'a" where
  "coalesce v dflt = (case v of None \<Rightarrow> dflt | Some x \<Rightarrow> x)"

text \<open>The \<open>||\<close> of SQL on \<open>TEXT\<close>: \<open>NULL\<close> if either side is.\<close>

definition sql_concat :: "sql_text option \<Rightarrow> sql_text option \<Rightarrow> sql_text option" where
  "sql_concat a b = (case a of None \<Rightarrow> None | Some x \<Rightarrow> (case b of None \<Rightarrow> None | Some y \<Rightarrow> Some (x @ y)))"

section \<open>Tables\<close>

text \<open>\<open>auth.users\<close>: the columns the migrations read.\<close>

record auth_user =
  au_id :: uuid
  au_email :: "sql_text option"
  au_full_name :: "sql_text option"

text \<open>\<open>public.profiles\<close> (primary key \<open>user_id\<close>).\<close>

record profile =
  p_user_id :: uuid
  p_full_name :: "sql_text option"
  p_role :: sql_text
  p_created_at :: timestamptz
  p_updated_at :: timestamptz

text \<open>\<open>public.consultations\<close> (primary key \<open>id\<close>).\<close>

record consultation =
  c_id :: uuid
  c_user_id :: uuid
  c_doctor_name :: sql_text
  c_consultation_type :: sql_text
  c_preferred_date :: date
  c_preferred_time :: time_of_day
  c_symptoms :: sql_text
  c_status :: sql_text
  c_payment_status :: sql_text
  c_amount :: decimal_10_2
  c_bank_account_id :: "uuid option"
  c_admin_notes :: "sql_text option"
  c_created_at :: timestamptz
  c_updated_at :: timestamptz

text \<open>\<open>public.notifications\<close> (primary key \<open>id\<close>).\<close>

record notification =
  n_id :: uuid
  n_user_id :: uuid
  n_consultation_id :: "uuid option"
  n_title :: sql_text
  n_message :: sql_text
  n_is_read :: bool
  n_created_at :: timestamptz

record db =
  auth_users :: "auth_user list"
  profiles :: "profile list"
  consultations :: "consultation list"
  notifications :: "notification list"

text \<open>The \<open>CHECK\<close> constraints of \<open>profiles\<close> and \<open>consultations\<close>.\<close>

definition profile_checks :: "profile \<Rightarrow> bool" where
  "profile_checks p = (p_role p \<in> set [''user'', ''admin''])"

definition consultation_checks :: "consultation \<Rightarrow> bool" where
  "consultation_checks c =
     (c_consultation_type c \<in> set [''video_call'', ''phone_call'', ''chat'']
      \<and> c_status c \<in> set [''pending'', ''approved'', ''declined'', ''completed'', ''cancelled'']
      \<and> c_payment_status c \<in> set [''unpaid'', ''paid'', ''refunded''])"

section \<open>Row-level security policies\<close>

text \<open>
  \<open>get_current_user_role()\<close>: the role of the profile row of \<open>auth.uid()\<close>, \<open>'user'\<close>
  when there is none. \<open>user_id\<close> is the primary key of \<open>profiles\<close>, so the scalar
  subquery sees at most one row.
\<close>

definition get_current_user_role :: "db \<Rightarrow> uuid option \<Rightarrow> sql_text" where
  "get_current_user_role d uid =
     coalesce
       (case List.find (\<lambda>p. sql_eq uid (Some (p_user_id p))) (profiles d) of
          None \<Rightarrow> None
        | Some p \<Rightarrow> Some (p_role p))
       ''user''"

text \<open>
  The policies of \<open>consultations\<close>, each under the name the migration gives it. The
  policies of one command are permissive: a row passes when one of them holds.
\<close>

definition users_can_view_their_own_consultations :: "uuid option \<Rightarrow> consultation \<Rightarrow> bool" where
  "users_can_view_their_own_consultations uid c = sql_eq uid (Some (c_user_id c))"

definition users_can_create_their_own_consultations :: "uuid option \<Rightarrow> consultation \<Rightarrow> bool" where
  "users_can_create_their_own_consultations uid c = sql_eq uid (Some (c_user_id c))"

definition users_can_update_their_own_consultations :: "uuid option \<Rightarrow> consultation \<Rightarrow> bool" where
  "users_can_update_their_own_consultations uid c = sql_eq uid (Some (c_user_id c))"

definition admins_can_view_all_consultations :: "db \<Rightarrow> uuid option \<Rightarrow> bool" where
  "admins_can_view_all_consultations d uid = (get_current_user_role d uid = ''admin'')"

definition admins_can_update_all_consultations :: "db \<Rightarrow> uuid option \<Rightarrow> bool" where
  "admins_can_update_all_consultations d uid = (get_current_user_role d uid = ''admin'')"

definition consultations_select_policy :: "db \<Rightarrow> uuid option \<Rightarrow> consultation \<Rightarrow> bool" where
  "consultations_select_policy d uid c =
     (users_can_view_their_own_consultations uid c \<or> admins_can_view_all_consultations d uid)"

definition consultations_update_policy :: "db \<Rightarrow> uuid option \<Rightarrow> consultation \<Rightarrow> bool" where
  "consultations_update_policy d uid c =
     (users_can_update_their_own_consultations uid c \<or> admins_can_update_all_consultations d uid)"

text \<open>The policies of \<open>notifications\<close> and of \<open>profiles\<close>.\<close>

definition users_can_view_their_own_notifications :: "uuid option \<Rightarrow> notification \<Rightarrow> bool" where
  "users_can_view_their_own_notifications uid n = sql_eq uid (Some (n_user_id n))"

definition users_can_update_their_own_notifications :: "uuid option \<Rightarrow> notification \<Rightarrow> bool" where
  "users_can_update_their_own_notifications uid n = sql_eq uid (Some (n_user_id n))"

definition users_can_view_their_own_profile :: "uuid option \<Rightarrow> profile \<Rightarrow> bool" where
  "users_can_view_their_own_profile uid p = sql_eq uid (Some (p_user_id p))"

definition users_can_update_their_own_profile :: "uuid option \<Rightarrow> profile \<Rightarrow> bool" where
  "users_can_update_their_own_profile uid p = sql_eq uid (Some (p_user_id p))"

section \<open>Trigger functions\<close>

text \<open>\<open>update_updated_at_column()\<close>, on \<open>consultations\<close> and on \<open>profiles\<close>.\<close>

definition update_updated_at_column :: "session \<Rightarrow> consultation \<Rightarrow> consultation" where
  "update_updated_at_column s NEW = NEW\<lparr>c_updated_at := now s\<rparr>"

definition update_updated_at_column_profiles :: "session \<Rightarrow> profile \<Rightarrow> profile" where
  "update_updated_at_column_profiles s NEW = NEW\<lparr>p_updated_at := now s\<rparr>"

text \<open>
  The two \<open>CASE\<close> expressions of \<open>notify_consultation_status_change()\<close>. A \<open>CASE\<close>
  with no matching branch is \<open>NULL\<close>. The titles end in the UTF-8 bytes of U+2705 and
  U+274C.
\<close>

definition notification_title :: "sql_text \<Rightarrow> sql_text option" where
  "notification_title status =
     (if status = ''approved'' then Some (''Consultation Approved '' @ [CHR 0xE2, CHR 0x9C, CHR 0x85])
      else if status = ''declined'' then Some (''Consultation Declined '' @ [CHR 0xE2, CHR 0x9D, CHR 0x8C])
      else None)"

definition notification_message :: "sql_text \<Rightarrow> sql_text option \<Rightarrow> sql_text option" where
  "notification_message status admin_notes =
     (if status = ''approved''
        then Some ''Your consultation request has been approved! You will receive further details soon.''
      else if status = ''declined''
        then sql_concat (Some ''Your consultation request has been declined. '')
               (Some (coalesce (sql_concat (Some ''Reason: '') admin_notes)
                        ''Please contact support for more information.''))
      else None)"

text \<open>
  \<open>notify_consultation_status_change()\<close>, fired after the update of a row: the rows it
  inserts into \<open>notifications\<close> (\<open>id\<close>, \<open>is_read\<close> and \<open>created_at\<close> take their
  defaults), or the error of the insert. \<open>title\<close> and \<open>message\<close> are \<open>NOT NULL\<close>.
\<close>

definition notify_consultation_status_change ::
  "session \<Rightarrow> consultation \<Rightarrow> consultation \<Rightarrow> pg_error + notification list" where
  "notify_consultation_status_change s OLD NEW =
     (if c_status NEW \<noteq> c_status OLD \<and> c_status NEW \<in> set [''approved'', ''declined'']
      then (case notification_title (c_status NEW) of
              None \<Rightarrow> Inl Not_Null_Violation
            | Some title \<Rightarrow>
               (case notification_message (c_status NEW) (c_admin_notes NEW) of
                  None \<Rightarrow> Inl Not_Null_Violation
                | Some message \<Rightarrow>
                    Inr [\<lparr>n_id = gen_random_uuid s, n_user_id = c_user_id NEW,
                          n_consultation_id = Some (c_id NEW), n_title = title,
                          n_message = message, n_is_read = False, n_created_at = now s\<rparr>]))
      else Inr [])"

section \<open>Statements on consultations\<close>

text \<open>
  The \<open>SET\<close> list of an \<open>UPDATE\<close> and the column list of an \<open>INSERT\<close>: the keys of
  the object the client passes to \<open>.update\<close> or \<open>.insert\<close>. The store accepts an
  assignment to any column; nothing in the migrations restricts columns.
\<close>

datatype consultation_set =
    is_Set_id: Set_id uuid
  | is_Set_user_id: Set_user_id uuid
  | is_Set_doctor_name: Set_doctor_name sql_text
  | is_Set_consultation_type: Set_consultation_type sql_text
  | is_Set_preferred_date: Set_preferred_date date
  | is_Set_preferred_time: Set_preferred_time time_of_day
  | is_Set_symptoms: Set_symptoms sql_text
  | is_Set_status: Set_status sql_text
  | is_Set_payment_status: Set_payment_status sql_text
  | is_Set_amount: Set_amount decimal_10_2
  | is_Set_bank_account_id: Set_bank_account_id "uuid option"
  | is_Set_admin_notes: Set_admin_notes "sql_text option"
  | is_Set_created_at: Set_created_at timestamptz
  | is_Set_updated_at: Set_updated_at timestamptz

fun assign :: "consultation_set \<Rightarrow> consultation \<Rightarrow> consultation" where
  "assign (Set_id v) c = c\<lparr>c_id := v\<rparr>"
| "assign (Set_user_id v) c = c\<lparr>c_user_id := v\<rparr>"
| "assign (Set_doctor_name v) c = c\<lparr>c_doctor_name := v\<rparr>"
| "assign (Set_consultation_type v) c = c\<lparr>c_consultation_type := v\<rparr>"
| "assign (Set_preferred_date v) c = c\<lparr>c_preferred_date := v\<rparr>"
| "assign (Set_preferred_time v) c = c\<lparr>c_preferred_time := v\<rparr>"
| "assign (Set_symptoms v) c = c\<lparr>c_symptoms := v\<rparr>"
| "assign (Set_status v) c = c\<lparr>c_status := v\<rparr>"
| "assign (Set_payment_status v) c = c\<lparr>c_payment_status := v\<rparr>"
| "assign (Set_amount v) c = c\<lparr>c_amount := v\<rparr>"
| "assign (Set_bank_account_id v) c = c\<lparr>c_bank_account_id := v\<rparr>"
| "assign (Set_admin_notes v) c = c\<lparr>c_admin_notes := v\<rparr>"
| "assign (Set_created_at v) c = c\<lparr>c_created_at := v\<rparr>"
| "assign (Set_updated_at v) c = c\<lparr>c_updated_at := v\<rparr>"

text \<open>\<open>SELECT * FROM consultations\<close>: the rows a policy lets through; never an error.\<close>

definition select_consultations :: "db \<Rightarrow> uuid option \<Rightarrow> consultation list" where
  "select_consultations d uid = filter (consultations_select_policy d uid) (consultations d)"

text \<open>
  The row an \<open>INSERT\<close> starts from: the declared defaults. \<open>user_id\<close>,
  \<open>doctor_name\<close>, \<open>consultation_type\<close>, \<open>preferred_date\<close>, \<open>preferred_time\<close> and
  \<open>symptoms\<close> have no default and are \<open>NULL\<close> unless the statement gives them; the
  values below stand in their place and never reach the table, since
  \<open>insert_consultation\<close> refuses a statement that leaves one of them out.
\<close>

definition consultation_defaults :: "session \<Rightarrow> consultation" where
  "consultation_defaults s =
     \<lparr>c_id = gen_random_uuid s, c_user_id = 0, c_doctor_name = [], c_consultation_type = [],
      c_preferred_date = 0, c_preferred_time = 0, c_symptoms = [],
      c_status = ''pending'', c_payment_status = ''unpaid'', c_amount = 5000,
      c_bank_account_id = None, c_admin_notes = None,
      c_created_at = now s, c_updated_at = now s\<rparr>"

text \<open>
  \<open>INSERT INTO consultations\<close>. The \<open>WITH CHECK\<close> of the insert policy is evaluated on
  the new row before its constraints; with \<open>user_id\<close> left \<open>NULL\<close> it is not true.
  No trigger fires on an insert.
\<close>

definition insert_consultation :: "session \<Rightarrow> db \<Rightarrow> consultation_set list \<Rightarrow> pg_error + db" where
  "insert_consultation s d sets =
     (let NEW = fold assign sets (consultation_defaults s) in
      if \<not> (list_ex is_Set_user_id sets \<and> users_can_create_their_own_consultations (auth_uid s) NEW)
        then Inl Insufficient_Privilege
      else if \<not> (list_ex is_Set_doctor_name sets \<and> list_ex is_Set_consultation_type sets
                 \<and> list_ex is_Set_preferred_date sets \<and> list_ex is_Set_preferred_time sets
                 \<and> list_ex is_Set_symptoms sets)
        then Inl Not_Null_Violation
      else if \<not> consultation_checks NEW then Inl Check_Violation
      else if c_id NEW \<in> set (map c_id (consultations d)) then Inl Unique_Violation
      else if c_user_id NEW \<notin> set (map au_id (auth_users d)) then Inl Foreign_Key_Violation
      else Inr (d\<lparr>consultations := consultations d @ [NEW]\<rparr>))"

text \<open>
  The insert of one row into \<open>notifications\<close> by the trigger function, which runs as
  \<open>SECURITY DEFINER\<close> (and the insert policy is \<open>WITH CHECK (true)\<close>): the primary
  key and the two foreign keys are checked.
\<close>

definition notification_insert_error :: "db \<Rightarrow> notification \<Rightarrow> pg_error option" where
  "notification_insert_error d n =
     (if n_id n \<in> set (map n_id (notifications d)) then Some Unique_Violation
      else if n_user_id n \<notin> set (map au_id (auth_users d)) then Some Foreign_Key_Violation
      else (case n_consultation_id n of
              None \<Rightarrow> None
            | Some k \<Rightarrow> if k \<in> set (map c_id (consultations d)) then None
                        else Some Foreign_Key_Violation))"

fun insert_notifications :: "db \<Rightarrow> notification list \<Rightarrow> pg_error + db" where
  "insert_notifications d [] = Inr d"
| "insert_notifications d (n # ns) =
     (case notification_insert_error d n of
        Some e \<Rightarrow> Inl e
      | None \<Rightarrow> insert_notifications (d\<lparr>notifications := notifications d @ [n]\<rparr>) ns)"

text \<open>
  The row an update writes: the assignments applied to the old row, then the
  \<open>BEFORE UPDATE\<close> trigger \<open>update_consultations_updated_at\<close>.
\<close>

definition new_consultation :: "session \<Rightarrow> consultation_set list \<Rightarrow> consultation \<Rightarrow> consultation" where
  "new_consultation s sets OLD = update_updated_at_column s (fold assign sets OLD)"

text \<open>
  \<open>UPDATE consultations SET ... WHERE id = cid\<close>, as the pages issue it
  (\<open>.update({...}).eq('id', cid)\<close>). \<open>id\<close> is the primary key, so at most one row
  matches. The result is an error, which leaves the database as it was, or the new
  database and the number of rows updated.

  A row is a target when the select and update policies hold of it (\<open>USING\<close>); a row that
  is not is skipped without an error. The update policies have no \<open>WITH CHECK\<close>, so
  their \<open>USING\<close> expression is checked on the new row as well. Then come the \<open>CHECK\<close>
  constraints, the primary key, the foreign key of \<open>user_id\<close> into \<open>auth.users\<close> and
  that of \<open>notifications.consultation_id\<close> into this table, and at last the
  \<open>AFTER UPDATE\<close> trigger \<open>consultation_status_notification\<close>.
\<close>

definition update_consultations ::
  "session \<Rightarrow> db \<Rightarrow> consultation_set list \<Rightarrow> uuid \<Rightarrow> pg_error + db \<times> nat" where
  "update_consultations s d sets cid =
     (case List.find (\<lambda>c. c_id c = cid) (consultations d) of
        None \<Rightarrow> Inr (d, 0)
      | Some OLD \<Rightarrow>
          if \<not> (consultations_select_policy d (auth_uid s) OLD
                 \<and> consultations_update_policy d (auth_uid s) OLD)
            then Inr (d, 0)
          else
            (let NEW = new_consultation s sets OLD in
             if \<not> (consultations_select_policy d (auth_uid s) NEW
                    \<and> consultations_update_policy d (auth_uid s) NEW)
               then Inl Insufficient_Privilege
             else if \<not> consultation_checks NEW then Inl Check_Violation
             else if c_id NEW \<noteq> c_id OLD \<and> c_id NEW \<in> set (map c_id (consultations d))
               then Inl Unique_Violation
             else if c_user_id NEW \<noteq> c_user_id OLD
                     \<and> c_user_id NEW \<notin> set (map au_id (auth_users d))
               then Inl Foreign_Key_Violation
             else if c_id NEW \<noteq> c_id OLD
                     \<and> Some (c_id OLD) \<in> set (map n_consultation_id (notifications d))
               then Inl Foreign_Key_Violation
             else
               (case notify_consultation_status_change s OLD NEW of
                  Inl e \<Rightarrow> Inl e
                | Inr ns \<Rightarrow>
                   (case insert_notifications
                           (d\<lparr>consultations :=
                                 map (\<lambda>c. if c_id c = cid then NEW else c) (consultations d)\<rparr>) ns of
                      Inl e \<Rightarrow> Inl e
                    | Inr d' \<Rightarrow> Inr (d', 1)))))"

section \<open>The pages' calls\<close>

text \<open>
  \<open>handleSubmit\<close> of the booking page: no request without a signed-in user (\<open>None\<close>);
  otherwise the insert of \<open>{user_id: user.id, ...formData}\<close>. The form has no amount
  field.
\<close>

record formData =
  doctor_name :: sql_text
  consultation_type :: sql_text
  preferred_date :: date
  preferred_time :: time_of_day
  symptoms :: sql_text

definition handleSubmit :: "session \<Rightarrow> db \<Rightarrow> formData \<Rightarrow> (pg_error + db) option" where
  "handleSubmit s d f =
     (case auth_uid s of
        None \<Rightarrow> None
      | Some user_id \<Rightarrow>
          Some (insert_consultation s d
                  [Set_user_id user_id, Set_doctor_name (doctor_name f),
                   Set_consultation_type (consultation_type f),
                   Set_preferred_date (preferred_date f),
                   Set_preferred_time (preferred_time f), Set_symptoms (symptoms f)]))"

text \<open>
  \<open>getConsultationTypeAmount\<close> of the payment page, the fee the page shows and asks the
  user to transfer (whole currency units).
\<close>

definition getConsultationTypeAmount :: "sql_text \<Rightarrow> int" where
  "getConsultationTypeAmount type =
     (if type = ''video_call'' then 50
      else if type = ''phone_call'' then 40
      else if type = ''chat'' then 30
      else 50)"

text \<open>
  \<open>confirmPayment\<close> of the payment page: returns at once (\<open>None\<close>) without a loaded
  consultation or a selected bank; otherwise one update by the consultation's id.
\<close>

definition confirmPayment ::
  "session \<Rightarrow> db \<Rightarrow> consultation option \<Rightarrow> uuid option \<Rightarrow> (pg_error + db \<times> nat) option" where
  "confirmPayment s d consultation selectedBank =
     (case consultation of
        None \<Rightarrow> None
      | Some c \<Rightarrow>
         (case selectedBank of
            None \<Rightarrow> None
          | Some bank \<Rightarrow>
              Some (update_consultations s d
                      [Set_payment_status ''paid'', Set_bank_account_id (Some bank)] (c_id c))))"

text \<open>
  \<open>updateConsultationStatus\<close> of the admin page. \<open>newStatus\<close> has the type
  \<open>'approved' | 'declined'\<close>; \<open>adminNotes\<close> is the text of the notes field, the empty
  string when the administrator wrote nothing.
\<close>

datatype newStatus = Approved | Declined

fun status_text :: "newStatus \<Rightarrow> sql_text" where
  "status_text Approved = ''approved''"
| "status_text Declined = ''declined''"

definition updateConsultationStatus ::
  "session \<Rightarrow> db \<Rightarrow> uuid \<Rightarrow> newStatus \<Rightarrow> sql_text \<Rightarrow> pg_error + db \<times> nat" where
  "updateConsultationStatus s d consultationId newStatus adminNotes =
     update_consultations s d
       [Set_status (status_text newStatus), Set_admin_notes (Some adminNotes)] consultationId"

section \<open>Statements on notifications\<close>

datatype notification_set =
    Set_n_id uuid
  | Set_n_user_id uuid
  | Set_n_consultation_id "uuid option"
  | Set_title sql_text
  | Set_message sql_text
  | Set_is_read bool
  | Set_n_created_at timestamptz

fun assign_notification :: "notification_set \<Rightarrow> notification \<Rightarrow> notification" where
  "assign_notification (Set_n_id v) n = n\<lparr>n_id := v\<rparr>"
| "assign_notification (Set_n_user_id v) n = n\<lparr>n_user_id := v\<rparr>"
| "assign_notification (Set_n_consultation_id v) n = n\<lparr>n_consultation_id := v\<rparr>"
| "assign_notification (Set_title v) n = n\<lparr>n_title := v\<rparr>"
| "assign_notification (Set_message v) n = n\<lparr>n_message := v\<rparr>"
| "assign_notification (Set_is_read v) n = n\<lparr>n_is_read := v\<rparr>"
| "assign_notification (Set_n_created_at v) n = n\<lparr>n_created_at := v\<rparr>"

definition select_notifications :: "db \<Rightarrow> uuid option \<Rightarrow> notification list" where
  "select_notifications d uid = filter (users_can_view_their_own_notifications uid) (notifications d)"

text \<open>
  \<open>UPDATE notifications SET ... WHERE id = nid\<close>: the same steps as for consultations,
  with the policies of this table, no \<open>CHECK\<close> constraint and no trigger.
\<close>

definition update_notifications ::
  "session \<Rightarrow> db \<Rightarrow> notification_set list \<Rightarrow> uuid \<Rightarrow> pg_error + db \<times> nat" where
  "update_notifications s d sets nid =
     (case List.find (\<lambda>n. n_id n = nid) (notifications d) of
        None \<Rightarrow> Inr (d, 0)
      | Some OLD \<Rightarrow>
          if \<not> (users_can_view_their_own_notifications (auth_uid s) OLD
                 \<and> users_can_update_their_own_notifications (auth_uid s) OLD)
            then Inr (d, 0)
          else
            (let NEW = fold assign_notification sets OLD in
             if \<not> (users_can_view_their_own_notifications (auth_uid s) NEW
                    \<and> users_can_update_their_own_notifications (auth_uid s) NEW)
               then Inl Insufficient_Privilege
             else if n_id NEW \<noteq> n_id OLD \<and> n_id NEW \<in> set (map n_id (notifications d))
               then Inl Unique_Violation
             else if n_user_id NEW \<noteq> n_user_id OLD
                     \<and> n_user_id NEW \<notin> set (map au_id (auth_users d))
               then Inl Foreign_Key_Violation
             else if n_consultation_id NEW \<noteq> n_consultation_id OLD
                     \<and> (case n_consultation_id NEW of
                           None \<Rightarrow> False
                         | Some k \<Rightarrow> k \<notin> set (map c_id (consultations d)))
               then Inl Foreign_Key_Violation
             else Inr (d\<lparr>notifications :=
                            map (\<lambda>n. if n_id n = nid then NEW else n) (notifications d)\<rparr>, 1)))"

section \<open>Statements on profiles\<close>

datatype profile_set =
    Set_p_user_id uuid
  | Set_full_name "sql_text option"
  | Set_role sql_text
  | Set_p_created_at timestamptz
  | Set_p_updated_at timestamptz

fun assign_profile :: "profile_set \<Rightarrow> profile \<Rightarrow> profile" where
  "assign_profile (Set_p_user_id v) p = p\<lparr>p_user_id := v\<rparr>"
| "assign_profile (Set_full_name v) p = p\<lparr>p_full_name := v\<rparr>"
| "assign_profile (Set_role v) p = p\<lparr>p_role := v\<rparr>"
| "assign_profile (Set_p_created_at v) p = p\<lparr>p_created_at := v\<rparr>"
| "assign_profile (Set_p_updated_at v) p = p\<lparr>p_updated_at := v\<rparr>"

text \<open>
  \<open>handle_new_user()\<close>, fired after the insert of a row into \<open>auth.users\<close>: an upsert
  of the profile row, the role chosen by the e-mail address. The update branch of the
  upsert fires \<open>update_profiles_updated_at\<close>.
\<close>

definition handle_new_user :: "session \<Rightarrow> db \<Rightarrow> auth_user \<Rightarrow> db" where
  "handle_new_user s d NEW =
     (let role = (if sql_eq (au_email NEW) (Some ''omatulemarvellous721@gmail.com'')
                  then ''admin'' else ''user'') in
      case List.find (\<lambda>p. p_user_id p = au_id NEW) (profiles d) of
        None \<Rightarrow>
          d\<lparr>profiles := profiles d @
               [\<lparr>p_user_id = au_id NEW, p_full_name = au_full_name NEW, p_role = role,
                 p_created_at = now s, p_updated_at = now s\<rparr>]\<rparr>
      | Some _ \<Rightarrow>
          d\<lparr>profiles :=
               map (\<lambda>p. if p_user_id p = au_id NEW
                         then update_updated_at_column_profiles s
                                (p\<lparr>p_full_name := au_full_name NEW, p_role := role\<rparr>)
                         else p) (profiles d)\<rparr>)"

text \<open>
  \<open>UPDATE profiles SET ... WHERE user_id = uid\<close>. The one update policy names the row,
  not the columns; the \<open>CHECK\<close> on \<open>role\<close> is the only limit on the value written.
\<close>

definition update_profiles ::
  "session \<Rightarrow> db \<Rightarrow> profile_set list \<Rightarrow> uuid \<Rightarrow> pg_error + db \<times> nat" where
  "update_profiles s d sets uid =
     (case List.find (\<lambda>p. p_user_id p = uid) (profiles d) of
        None \<Rightarrow> Inr (d, 0)
      | Some OLD \<Rightarrow>
          if \<not> (users_can_view_their_own_profile (auth_uid s) OLD
                 \<and> users_can_update_their_own_profile (auth_uid s) OLD)
            then Inr (d, 0)
          else
            (let NEW = update_updated_at_column_profiles s (fold assign_profile sets OLD) in
             if \<not> (users_can_view_their_own_profile (auth_uid s) NEW
                    \<and> users_can_update_their_own_profile (auth_uid s) NEW)
               then Inl Insufficient_Privilege
             else if \<not> profile_checks NEW then Inl Check_Violation
             else if p_user_id NEW \<noteq> p_user_id OLD
                     \<and> p_user_id NEW \<in> set (map p_user_id (profiles d))
               then Inl Unique_Violation
             else if p_user_id NEW \<noteq> p_user_id OLD
                     \<and> p_user_id NEW \<notin> set (map au_id (auth_users d))
               then Inl Foreign_Key_Violation
             else Inr (d\<lparr>profiles :=
                            map (\<lambda>p. if p_user_id p = uid then NEW else p) (profiles d)\<rparr>, 1)))"

section \<open>Example data\<close>

text \<open>
  A small database: the patient (user 1), the administrator (user 2, the address the
  migration names) and a second patient (user 3); one pending consultation of user 1.
\<close>

definition example_consultation :: consultation where
  "example_consultation =
     \<lparr>c_id = 10, c_user_id = 1, c_doctor_name = ''Dr. Smith'',
      c_consultation_type = ''video_call'', c_preferred_date = 20000, c_preferred_time = 600,
      c_symptoms = ''cough'', c_status = ''pending'', c_payment_status = ''unpaid'',
      c_amount = 5000, c_bank_account_id = None, c_admin_notes = None,
      c_created_at = 100, c_updated_at = 100\<rparr>"

definition example_db :: db where
  "example_db =
     \<lparr>auth_users =
        [\<lparr>au_id = 1, au_email = Some ''pat@example.org'', au_full_name = Some ''Pat''\<rparr>,
         \<lparr>au_id = 2, au_email = Some ''omatulemarvellous721@gmail.com'', au_full_name = None\<rparr>,
         \<lparr>au_id = 3, au_email = Some ''sam@example.org'', au_full_name = Some ''Sam''\<rparr>],
      profiles =
        [\<lparr>p_user_id = 1, p_full_name = Some ''Pat'', p_role = ''user'',
          p_created_at = 50, p_updated_at = 50\<rparr>,
         \<lparr>p_user_id = 2, p_full_name = None, p_role = ''admin'',
          p_created_at = 60, p_updated_at = 60\<rparr>,
         \<lparr>p_user_id = 3, p_full_name = Some ''Sam'', p_role = ''user'',
          p_created_at = 70, p_updated_at = 70\<rparr>],
      consultations = [example_consultation],
      notifications = []\<rparr>"

definition owner_session :: session where
  "owner_session = \<lparr>auth_uid = Some 1, now = 200, gen_random_uuid = 77\<rparr>"

definition admin_session :: session where
  "admin_session = \<lparr>auth_uid = Some 2, now = 200, gen_random_uuid = 77\<rparr>"

definition other_session :: session where
  "other_session = \<lparr>auth_uid = Some 3, now = 200, gen_random_uuid = 77\<rparr>"

definition later_admin_session :: session where
  "later_admin_session = \<lparr>auth_uid = Some 2, now = 300, gen_random_uuid = 78\<rparr>"

definition later_session :: session where
  "later_session = \<lparr>auth_uid = Some 1, now = 300, gen_random_uuid = 78\<rparr>"

text \<open>
  The database after the administrator has approved the consultation.
\<close>

definition approved_notification :: notification where
  "approved_notification =
     \<lparr>n_id = 77, n_user_id = 1, n_consultation_id = Some 10,
      n_title = ''Consultation Approved '' @ [CHR 0xE2, CHR 0x9C, CHR 0x85],
      n_message =
        ''Your consultation request has been approved! You will receive further details soon.'',
      n_is_read = False, n_created_at = 200\<rparr>"

definition approved_db :: db where
  "approved_db =
     example_db\<lparr>consultations :=
                   [example_consultation\<lparr>c_status := ''approved'', c_updated_at := 200\<rparr>],
                 notifications := [approved_notification]\<rparr>"

text \<open>
  A booking for a telephone consultation, the row the store keeps for it, and the same
  row inserted with an explicit \<open>updated_at\<close>.
\<close>

definition phone_form :: formData where
  "phone_form =
     \<lparr>doctor_name = ''Dr. Jones'', consultation_type = ''phone_call'',
      preferred_date = 20001, preferred_time = 900, symptoms = ''headache''\<rparr>"

definition phone_consultation :: consultation where
  "phone_consultation =
     \<lparr>c_id = 77, c_user_id = 1, c_doctor_name = ''Dr. Jones'',
      c_consultation_type = ''phone_call'', c_preferred_date = 20001, c_preferred_time = 900,
      c_symptoms = ''headache'', c_status = ''pending'', c_payment_status = ''unpaid'',
      c_amount = 5000, c_bank_account_id = None, c_admin_notes = None,
      c_created_at = 200, c_updated_at = 200\<rparr>"

definition postdated_consultation :: consultation where
  "postdated_consultation = phone_consultation\<lparr>c_updated_at := 900\<rparr>"

text \<open>
  A database with one notification of user 1, and one whose consultation is declined
  and refunded.
\<close>

definition declined_notification :: notification where
  "declined_notification =
     \<lparr>n_id = 78, n_user_id = 1, n_consultation_id = Some 10,
      n_title = ''Consultation Declined '' @ [CHR 0xE2, CHR 0x9D, CHR 0x8C],
      n_message = ''Your consultation request has been declined. Reason: schedule conflict'',
      n_is_read = False, n_created_at = 250\<rparr>"

definition notified_db :: db where
  "notified_db = example_db\<lparr>notifications := [declined_notification]\<rparr>"

definition closed_consultation :: consultation where
  "closed_consultation =
     example_consultation\<lparr>c_status := ''declined'', c_payment_status := ''refunded''\<rparr>"

definition closed_db :: db where
  "closed_db = example_db\<lparr>consultations := [closed_consultation]\<rparr>"

text \<open>
  A sign-up: the row of \<open>auth.users\<close> and the database after the trigger
  \<open>on_auth_user_created\<close> has run.
\<close>

definition new_user :: auth_user where
  "new_user = \<lparr>au_id = 4, au_email = Some ''lee@example.org'', au_full_name = Some ''Lee''\<rparr>"

definition provisioned_db :: db where
  "provisioned_db =
     handle_new_user \<lparr>auth_uid = None, now = 400, gen_random_uuid = 79\<rparr>
       (example_db\<lparr>auth_users := auth_users example_db @ [new_user]\<rparr>) new_user"

definition new_user_profile :: profile where
  "new_user_profile =
     \<lparr>p_user_id = 4, p_full_name = Some ''Lee'', p_role = ''user'',
      p_created_at = 400, p_updated_at = 400\<rparr>"

definition new_user_session :: session where
  "new_user_session = \<lparr>auth_uid = Some 4, now = 500, gen_random_uuid = 80\<rparr>"

section \<open>Auxiliary facts\<close>

text \<open>
  A primary key finds its row, and replacing the row of a key keeps every column the
  old and the new row agree on.
\<close>

lemma find_key:
  "distinct (map f xs) \<Longrightarrow> x \<in> set xs \<Longrightarrow> List.find (\<lambda>y. f y = f x) xs = Some x"
  by (induction xs) (auto simp: image_iff)

lemma replace_key_map:
  "distinct (map f xs) \<Longrightarrow> x \<in> set xs \<Longrightarrow> g y = g x \<Longrightarrow>
   map g (map (\<lambda>z. if f z = f x then y else z) xs) = map g xs"
proof -
  assume d: "distinct (map f xs)" and x: "x \<in> set xs" and g: "g y = g x"
  from d have "inj_on f (set xs)" by (simp add: distinct_map)
  with x have "\<And>z. z \<in> set xs \<Longrightarrow> f z = f x \<Longrightarrow> z = x"
    by (auto dest: inj_onD)
  with g show ?thesis by (auto simp: map_eq_conv)
qed

lemma find_replace_key:
  "x \<in> set xs \<Longrightarrow> f y = f x \<Longrightarrow>
   List.find (\<lambda>z. f z = f x) (map (\<lambda>z. if f z = f x then y else z) xs) = Some y"
  by (induction xs) auto

lemma sql_eq_Some [simp]: "sql_eq a (Some y) = (a = Some y)"
  by (cases a) (auto simp: sql_eq_def)

lemma get_current_user_role_Some:
  "get_current_user_role d (Some u) =
     (case List.find (\<lambda>p. p_user_id p = u) (profiles d) of
        None \<Rightarrow> ''user'' | Some p \<Rightarrow> p_role p)"
proof -
  have e: "(\<lambda>p. sql_eq (Some u) (Some (p_user_id p))) = (\<lambda>p. p_user_id p = u)"
    by (auto simp: sql_eq_def)
  show ?thesis
    unfolding get_current_user_role_def e by (simp add: coalesce_def split: option.splits)
qed

lemma insert_notifications_Inr:
  "insert_notifications d ns = Inr d' \<Longrightarrow> d' = d\<lparr>notifications := notifications d @ ns\<rparr>"
proof (induction ns arbitrary: d)
  case Nil
  then show ?case by simp
next
  case (Cons n ns)
  from Cons.prems have ok: "notification_insert_error d n = None"
    and rest: "insert_notifications (d\<lparr>notifications := notifications d @ [n]\<rparr>) ns = Inr d'"
    by (auto split: option.splits)
  from Cons.IH [OF rest] show ?case by simp
qed

lemma fold_assign_user_id:
  "\<not> list_ex is_Set_user_id sets \<Longrightarrow> c_user_id (fold assign sets c) = c_user_id c"
proof (induction sets arbitrary: c)
  case Nil
  then show ?case by simp
next
  case (Cons a sets)
  then show ?case by (cases a) auto
qed

lemma notify_fires:
  assumes "c_status NEW \<noteq> c_status OLD"
    and "c_status NEW = ''approved'' \<or> c_status NEW = ''declined''"
  shows "\<exists>n. notify_consultation_status_change s OLD NEW = Inr [n]
           \<and> n_user_id n = c_user_id NEW \<and> n_consultation_id n = Some (c_id NEW)"
  using assms
  by (auto simp: notify_consultation_status_change_def notification_title_def
      notification_message_def sql_concat_def coalesce_def split: option.splits)

lemma notify_silent:
  assumes "\<not> (c_status NEW \<noteq> c_status OLD
             \<and> (c_status NEW = ''approved'' \<or> c_status NEW = ''declined''))"
  shows "notify_consultation_status_change s OLD NEW = Inr []"
  using assms by (auto simp: notify_consultation_status_change_def)

text \<open>
  What an update by the key of a stored row can return: no row written and the database
  as it was, or one row written, the policies holding of the old and of the new row, and
  the trigger's rows appended to \<open>notifications\<close>.
\<close>

lemma update_consultations_cases:
  assumes "distinct (map c_id (consultations d))" and "c \<in> set (consultations d)"
    and "update_consultations s d sets (c_id c) = Inr (d', k)"
  shows "(k = 0 \<and> d' = d
           \<and> \<not> (auth_uid s = Some (c_user_id c) \<or> get_current_user_role d (auth_uid s) = ''admin''))
       \<or> (k = 1
           \<and> (auth_uid s = Some (c_user_id c) \<or> get_current_user_role d (auth_uid s) = ''admin'')
           \<and> (auth_uid s = Some (c_user_id (new_consultation s sets c))
                \<or> get_current_user_role d (auth_uid s) = ''admin'')
           \<and> consultation_checks (new_consultation s sets c)
           \<and> (\<exists>ns. notify_consultation_status_change s c (new_consultation s sets c) = Inr ns
                 \<and> d' = d\<lparr>consultations :=
                             map (\<lambda>x. if c_id x = c_id c then new_consultation s sets c else x)
                               (consultations d),
                           notifications := notifications d @ ns\<rparr>))"
proof -
  have f: "List.find (\<lambda>x. c_id x = c_id c) (consultations d) = Some c"
    using assms(1,2) by (rule find_key)
  show ?thesis
    using assms(3) unfolding update_consultations_def f
    by (auto simp: Let_def consultations_select_policy_def consultations_update_policy_def
        users_can_view_their_own_consultations_def admins_can_view_all_consultations_def
        users_can_update_their_own_consultations_def admins_can_update_all_consultations_def
        split: if_splits sum.splits dest!: insert_notifications_Inr)
qed

text \<open>
  The statements keep what the schema declares: an accepted update or insert leaves
  \<open>id\<close> a key of \<open>consultations\<close>, and an accepted update leaves every row within
  the \<open>CHECK\<close> constraints.
\<close>

lemma replace_key_distinct:
  assumes "distinct (map f xs)" and "x \<in> set xs" and "f y = f x \<or> f y \<notin> set (map f xs)"
  shows "distinct (map f (map (\<lambda>z. if f z = f x then y else z) xs))"
proof -
  have m: "map f (map (\<lambda>z. if f z = f x then y else z) xs)
           = map (\<lambda>k. if k = f x then f y else k) (map f xs)"
    by (simp add: comp_def if_distrib cong: if_cong)
  have "inj_on (\<lambda>k. if k = f x then f y else k) (set (map f xs))"
  proof (rule inj_onI)
    fix a b
    assume "a \<in> set (map f xs)" and "b \<in> set (map f xs)"
      and "(if a = f x then f y else a) = (if b = f x then f y else b)"
    with assms(3) show "a = b"
      by (auto split: if_splits simp del: set_map)
  qed
  with assms(1) have "distinct (map (\<lambda>k. if k = f x then f y else k) (map f xs))"
    by (simp only: distinct_map)
  then show ?thesis by (simp only: m)
qed

lemma update_consultations_keeps_key:
  assumes "distinct (map c_id (consultations d))"
    and "update_consultations s d sets cid = Inr (d', k)"
  shows "distinct (map c_id (consultations d'))"
proof (cases "List.find (\<lambda>c. c_id c = cid) (consultations d)")
  case None
  with assms show ?thesis by (simp add: update_consultations_def)
next
  case (Some c)
  then have c: "c \<in> set (consultations d)" and cid: "c_id c = cid"
    by (auto simp: find_Some_iff)
  let ?NEW = "new_consultation s sets c"
  show ?thesis
  proof (cases "d' = d")
    case True
    with assms(1) show ?thesis by simp
  next
    case False
    from assms(2) Some False
    have key: "c_id ?NEW = c_id c \<or> c_id ?NEW \<notin> set (map c_id (consultations d))"
      by (auto simp: update_consultations_def Let_def cid split: if_splits sum.splits)
    from update_consultations_cases [OF assms(1) c, of s sets d' k] assms(2) False
    have "consultations d' = map (\<lambda>x. if c_id x = c_id c then ?NEW else x) (consultations d)"
      by (auto simp: cid)
    with replace_key_distinct [OF assms(1) c key] show ?thesis by simp
  qed
qed

lemma insert_consultation_keeps_key:
  assumes "distinct (map c_id (consultations d))"
    and "insert_consultation s d sets = Inr d'"
  shows "distinct (map c_id (consultations d'))"
  using assms by (auto simp: insert_consultation_def Let_def split: if_splits)

lemma update_consultations_keeps_checks:
  assumes "distinct (map c_id (consultations d))"
    and "list_all consultation_checks (consultations d)"
    and "update_consultations s d sets cid = Inr (d', k)"
  shows "list_all consultation_checks (consultations d')"
proof (cases "List.find (\<lambda>c. c_id c = cid) (consultations d)")
  case None
  with assms show ?thesis by (simp add: update_consultations_def)
next
  case (Some c)
  then have c: "c \<in> set (consultations d)" and cid: "c_id c = cid"
    by (auto simp: find_Some_iff)
  from update_consultations_cases [OF assms(1) c, of s sets d' k] assms(2,3)
  show ?thesis by (auto simp: cid list_all_iff)
qed

lemma provisioned_profiles:
  "profiles provisioned_db = profiles example_db @ [new_user_profile]"
  by (simp add: provisioned_db_def handle_new_user_def new_user_def new_user_profile_def
      example_db_def sql_eq_def)

text \<open>
  Every booking that the store accepts through \<open>handleSubmit\<close> keeps the default
  amount, whatever its type.
\<close>

lemma handleSubmit_amount:
  assumes "handleSubmit s d f = Some (Inr d')"
  shows "\<exists>row. consultations d' = consultations d @ [row] \<and> c_amount row = 5000
           \<and> c_consultation_type row = consultation_type f"
  using assms
  by (auto simp: handleSubmit_def insert_consultation_def consultation_defaults_def
      users_can_create_their_own_consultations_def consultation_checks_def Let_def split:
      option.splits if_splits)

section \<open>The claims\<close>

subsection \<open>C1: when a notification is created\<close>

text \<open>
  C1. Let \<open>c\<close> be a stored consultation and let an update by its id be accepted (one
  row written); \<open>new_consultation s sets c\<close> is the row written. A notification is
  created if and only if the status of the written row differs from that of \<open>c\<close> and
  is \<open>approved\<close> or \<open>declined\<close>: then exactly one row is appended to
  \<open>notifications\<close>, owned by the owner of the written row and referring to it;
  otherwise, and so when the same status is written again, \<open>notifications\<close> is
  unchanged. The owner of the written row is the owner of \<open>c\<close> whenever the update
  does not assign \<open>user_id\<close>.
\<close>

theorem status_change_notifies:
  assumes "distinct (map c_id (consultations d))" and "c \<in> set (consultations d)"
    and "update_consultations s d sets (c_id c) = Inr (d', Suc 0)"
  shows "new_consultation s sets c \<in> set (consultations d')
     \<and> (if c_status (new_consultation s sets c) \<noteq> c_status c
            \<and> (c_status (new_consultation s sets c) = ''approved''
                \<or> c_status (new_consultation s sets c) = ''declined'')
         then \<exists>n. notifications d' = notifications d @ [n]
                \<and> n_user_id n = c_user_id (new_consultation s sets c)
                \<and> n_consultation_id n = Some (c_id (new_consultation s sets c))
         else notifications d' = notifications d)
     \<and> (\<not> list_ex is_Set_user_id sets
          \<longrightarrow> c_user_id (new_consultation s sets c) = c_user_id c)"
proof -
  let ?NEW = "new_consultation s sets c"
  from update_consultations_cases [OF assms]
  obtain ns where ns: "notify_consultation_status_change s c ?NEW = Inr ns"
    and d': "d' = d\<lparr>consultations := map (\<lambda>x. if c_id x = c_id c then ?NEW else x) (consultations d),
                     notifications := notifications d @ ns\<rparr>"
    by auto
  have stored: "?NEW \<in> set (consultations d')"
    using assms(2) by (auto simp: d' image_iff intro!: bexI [of _ c])
  have emitted: "if c_status ?NEW \<noteq> c_status c
            \<and> (c_status ?NEW = ''approved'' \<or> c_status ?NEW = ''declined'')
         then \<exists>n. notifications d' = notifications d @ [n]
                \<and> n_user_id n = c_user_id ?NEW
                \<and> n_consultation_id n = Some (c_id ?NEW)
         else notifications d' = notifications d"
  proof (cases "c_status ?NEW \<noteq> c_status c
            \<and> (c_status ?NEW = ''approved'' \<or> c_status ?NEW = ''declined'')")
    case True
    then obtain n where "notify_consultation_status_change s c ?NEW = Inr [n]"
      and "n_user_id n = c_user_id ?NEW" and "n_consultation_id n = Some (c_id ?NEW)"
      using notify_fires [of ?NEW c s] by blast
    with ns True show ?thesis by (auto simp: d')
  next
    case False
    from notify_silent [OF False, of s] ns have "ns = []" by simp
    with False show ?thesis by (simp add: d')
  qed
  have owner: "\<not> list_ex is_Set_user_id sets \<longrightarrow> c_user_id ?NEW = c_user_id c"
    by (simp add: new_consultation_def update_updated_at_column_def fold_assign_user_id)
  from stored emitted owner show ?thesis by blast
qed

text \<open>
  C1 at the example: the administrator approves the pending consultation, and the one
  notification goes to its owner; approving it a second time writes the row and adds no
  notification.
\<close>

theorem status_change_notifies_witness:
  "distinct (map c_id (consultations example_db))
   \<and> example_consultation \<in> set (consultations example_db)
   \<and> update_consultations admin_session example_db [Set_status ''approved'']
        (c_id example_consultation) = Inr (approved_db, Suc 0)
   \<and> notifications approved_db = notifications example_db @ [approved_notification]
   \<and> n_user_id approved_notification = c_user_id example_consultation
   \<and> update_consultations later_admin_session approved_db [Set_status ''approved''] 10
       = Inr (approved_db\<lparr>consultations :=
                [example_consultation\<lparr>c_status := ''approved'', c_updated_at := 300\<rparr>]\<rparr>,
              Suc 0)"
proof -
  have h1: "distinct (map c_id (consultations example_db))"
    by (simp add: example_consultation_def example_db_def admin_session_def)
  have h2: "example_consultation \<in> set (consultations example_db)"
    by (simp add: example_consultation_def example_db_def admin_session_def)
  have h3: "update_consultations admin_session example_db [Set_status ''approved'']
        (c_id example_consultation) = Inr (approved_db, Suc 0)"
    by (simp add: example_consultation_def example_db_def admin_session_def
        approved_notification_def approved_db_def consultations_select_policy_def
        consultations_update_policy_def users_can_view_their_own_consultations_def
        admins_can_view_all_consultations_def users_can_update_their_own_consultations_def
        admins_can_update_all_consultations_def get_current_user_role_def coalesce_def
        update_consultations_def new_consultation_def update_updated_at_column_def
        consultation_checks_def notify_consultation_status_change_def notification_title_def
        notification_message_def sql_concat_def notification_insert_error_def Let_def)
  have again: "update_consultations later_admin_session approved_db [Set_status ''approved''] 10
       = Inr (approved_db\<lparr>consultations :=
                [example_consultation\<lparr>c_status := ''approved'', c_updated_at := 300\<rparr>]\<rparr>,
              Suc 0)"
    by (simp add: example_consultation_def example_db_def admin_session_def
        approved_notification_def approved_db_def later_admin_session_def
        consultations_select_policy_def consultations_update_policy_def
        users_can_view_their_own_consultations_def admins_can_view_all_consultations_def
        users_can_update_their_own_consultations_def admins_can_update_all_consultations_def
        get_current_user_role_def coalesce_def update_consultations_def new_consultation_def
        update_updated_at_column_def consultation_checks_def
        notify_consultation_status_change_def notification_title_def notification_message_def
        sql_concat_def notification_insert_error_def Let_def)
  from status_change_notifies [OF h1 h2 h3] h1 h2 h3 again show ?thesis
    by (simp add: example_consultation_def example_db_def admin_session_def
        approved_notification_def approved_db_def new_consultation_def
        update_updated_at_column_def)
qed

subsection \<open>C2: the content of the notification\<close>

text \<open>
  C2 as stated fails. The administrator declines from the admin page without writing
  notes: the page sends the empty string, \<open>'Reason: ' || ''\<close> is not \<open>NULL\<close>, and
  the message ends in \<open>Reason: \<close> instead of the instruction to contact support. The
  title, too, is not the bare \<open>Consultation Declined\<close>: it carries the bytes of U+274C.
\<close>

theorem notification_content_counterexample:
  "updateConsultationStatus admin_session example_db 10 Declined [] =
     Inr (example_db\<lparr>consultations :=
                       [example_consultation\<lparr>c_status := ''declined'', c_admin_notes := Some [],
                                             c_updated_at := 200\<rparr>],
                     notifications :=
                       [\<lparr>n_id = 77, n_user_id = 1, n_consultation_id = Some 10,
                         n_title = ''Consultation Declined '' @ [CHR 0xE2, CHR 0x9D, CHR 0x8C],
                         n_message = ''Your consultation request has been declined. Reason: '',
                         n_is_read = False, n_created_at = 200\<rparr>]\<rparr>, 1)
   \<and> ''Consultation Declined '' @ [CHR 0xE2, CHR 0x9D, CHR 0x8C] \<noteq> ''Consultation Declined''
   \<and> ''Your consultation request has been declined. Reason: ''
       \<noteq> ''Your consultation request has been declined. Please contact support for more information.''"
  by (simp add: updateConsultationStatus_def example_consultation_def example_db_def
      admin_session_def consultations_select_policy_def consultations_update_policy_def
      users_can_view_their_own_consultations_def admins_can_view_all_consultations_def
      users_can_update_their_own_consultations_def admins_can_update_all_consultations_def
      get_current_user_role_def coalesce_def update_consultations_def new_consultation_def
      update_updated_at_column_def consultation_checks_def notify_consultation_status_change_def
      notification_title_def notification_message_def sql_concat_def
      notification_insert_error_def Let_def)

text \<open>
  C2, amended. Whenever the trigger inserts a notification, its content is fixed by the
  new status and the notes: for \<open>approved\<close> the title \<open>Consultation Approved\<close>
  followed by a space and U+2705 and the fixed confirmation; for \<open>declined\<close> the title
  \<open>Consultation Declined\<close> followed by a space and U+274C and the fixed rejection,
  followed by the instruction to contact support when \<open>admin_notes\<close> is \<open>NULL\<close> and
  by \<open>Reason: \<close> and the notes when they are a non-empty text.
\<close>

theorem notification_content:
  assumes "notify_consultation_status_change s OLD NEW = Inr [n]"
  shows "(c_status NEW = ''approved''
          \<and> n_title n = ''Consultation Approved '' @ [CHR 0xE2, CHR 0x9C, CHR 0x85]
          \<and> n_message n =
              ''Your consultation request has been approved! You will receive further details soon.'')
       \<or> (c_status NEW = ''declined''
          \<and> n_title n = ''Consultation Declined '' @ [CHR 0xE2, CHR 0x9D, CHR 0x8C]
          \<and> (c_admin_notes NEW = None \<longrightarrow>
                n_message n = ''Your consultation request has been declined. ''
                              @ ''Please contact support for more information.'')
          \<and> (\<forall>notes. c_admin_notes NEW = Some notes \<and> notes \<noteq> [] \<longrightarrow>
                n_message n = ''Your consultation request has been declined. ''
                              @ ''Reason: '' @ notes))"
  using assms
  by (auto simp: notify_consultation_status_change_def notification_title_def
      notification_message_def sql_concat_def coalesce_def split: if_splits option.splits)

text \<open>
  C2 amended, at the example: declined with the notes \<open>schedule conflict\<close>.
\<close>

theorem notification_content_witness:
  "notify_consultation_status_change admin_session example_consultation
     (example_consultation\<lparr>c_status := ''declined'', c_admin_notes := Some ''schedule conflict''\<rparr>)
   = Inr [\<lparr>n_id = 77, n_user_id = 1, n_consultation_id = Some 10,
           n_title = ''Consultation Declined '' @ [CHR 0xE2, CHR 0x9D, CHR 0x8C],
           n_message = ''Your consultation request has been declined. Reason: schedule conflict'',
           n_is_read = False, n_created_at = 200\<rparr>]"
proof -
  have h: "notify_consultation_status_change admin_session example_consultation
     (example_consultation\<lparr>c_status := ''declined'', c_admin_notes := Some ''schedule conflict''\<rparr>)
   = Inr [\<lparr>n_id = 77, n_user_id = 1, n_consultation_id = Some 10,
           n_title = ''Consultation Declined '' @ [CHR 0xE2, CHR 0x9D, CHR 0x8C],
           n_message = ''Your consultation request has been declined. Reason: schedule conflict'',
           n_is_read = False, n_created_at = 200\<rparr>]"
    by (simp add: example_consultation_def admin_session_def
        notify_consultation_status_change_def notification_title_def notification_message_def
        sql_concat_def Let_def coalesce_def)
  from notification_content [OF h] h show ?thesis by simp
qed

subsection \<open>C3: who may approve or decline\<close>

text \<open>
  C3 as stated fails. The owner of the pending consultation, whose role is \<open>user\<close>,
  sets its status to \<open>approved\<close>: the policy \<open>Users can update their own
  consultations\<close> lets the update through, and the row is written.
\<close>

theorem owner_decides_counterexample:
  "get_current_user_role example_db (auth_uid owner_session) = ''user''
   \<and> c_status example_consultation = ''pending''
   \<and> update_consultations owner_session example_db [Set_status ''approved''] 10
       = Inr (approved_db, 1)
   \<and> consultations approved_db =
       [example_consultation\<lparr>c_status := ''approved'', c_updated_at := 200\<rparr>]"
  by (simp add: example_consultation_def example_db_def owner_session_def
      approved_notification_def approved_db_def consultations_select_policy_def
      consultations_update_policy_def users_can_view_their_own_consultations_def
      admins_can_view_all_consultations_def users_can_update_their_own_consultations_def
      admins_can_update_all_consultations_def get_current_user_role_def coalesce_def
      update_consultations_def new_consultation_def update_updated_at_column_def
      consultation_checks_def notify_consultation_status_change_def notification_title_def
      notification_message_def sql_concat_def notification_insert_error_def Let_def)

text \<open>
  C3, amended. The transitions can be performed only by an administrator or by the owner
  of the consultation: every update of a stored consultation by an actor who is neither,
  and so every such update that sets the status of a pending consultation to
  \<open>approved\<close> or \<open>declined\<close>, writes no row and leaves the database as it was.
\<close>

theorem non_owner_non_admin_denied:
  assumes "distinct (map c_id (consultations d))" and "c \<in> set (consultations d)"
    and "auth_uid s \<noteq> Some (c_user_id c)"
    and "get_current_user_role d (auth_uid s) \<noteq> ''admin''"
  shows "update_consultations s d sets (c_id c) = Inr (d, 0)"
proof -
  have f: "List.find (\<lambda>x. c_id x = c_id c) (consultations d) = Some c"
    using assms(1,2) by (rule find_key)
  show ?thesis
    using assms(3,4) unfolding update_consultations_def f
    by (simp add: consultations_select_policy_def users_can_view_their_own_consultations_def
        admins_can_view_all_consultations_def)
qed

text \<open>
  C3 amended, at the example: another user and an unauthenticated request.
\<close>

theorem non_owner_non_admin_denied_witness:
  "c_status example_consultation = ''pending''
   \<and> update_consultations other_session example_db [Set_status ''approved'']
        (c_id example_consultation) = Inr (example_db, 0)
   \<and> update_consultations \<lparr>auth_uid = None, now = 200, gen_random_uuid = 77\<rparr> example_db
        [Set_status ''declined''] (c_id example_consultation) = Inr (example_db, 0)"
proof -
  have h1: "distinct (map c_id (consultations example_db))"
    by (simp add: example_consultation_def example_db_def other_session_def)
  have h2: "example_consultation \<in> set (consultations example_db)"
    by (simp add: example_consultation_def example_db_def other_session_def)
  have h3: "auth_uid other_session \<noteq> Some (c_user_id example_consultation)"
    by (simp add: example_consultation_def example_db_def other_session_def)
  have h4: "get_current_user_role example_db (auth_uid other_session) \<noteq> ''admin''"
    by (simp add: example_consultation_def example_db_def other_session_def
        consultations_select_policy_def consultations_update_policy_def
        users_can_view_their_own_consultations_def admins_can_view_all_consultations_def
        users_can_update_their_own_consultations_def admins_can_update_all_consultations_def
        get_current_user_role_def coalesce_def)
  have h5: "auth_uid \<lparr>auth_uid = None, now = 200, gen_random_uuid = 77\<rparr>
              \<noteq> Some (c_user_id example_consultation)"
    by simp
  have h6: "get_current_user_role example_db
              (auth_uid \<lparr>auth_uid = None, now = 200, gen_random_uuid = 77\<rparr>) \<noteq> ''admin''"
    by (simp add: example_consultation_def example_db_def other_session_def
        consultations_select_policy_def consultations_update_policy_def
        users_can_view_their_own_consultations_def admins_can_view_all_consultations_def
        users_can_update_their_own_consultations_def admins_can_update_all_consultations_def
        get_current_user_role_def coalesce_def sql_eq_def)
  from non_owner_non_admin_denied [OF h1 h2 h3 h4]
    non_owner_non_admin_denied [OF h1 h2 h5 h6]
  show ?thesis by (simp add: example_consultation_def)
qed

subsection \<open>C4: who may read a consultation\<close>

text \<open>
  C4. A stored consultation is among the rows a read by actor \<open>a\<close> returns if and
  only if \<open>a\<close> is its owner or the role of \<open>a\<close> is \<open>admin\<close>. The read returns a
  list of rows and has no error.
\<close>

lemma select_consultations_iff:
  "c \<in> set (consultations d) \<Longrightarrow>
   (c \<in> set (select_consultations d a)
     \<longleftrightarrow> (a = Some (c_user_id c) \<or> get_current_user_role d a = ''admin''))"
  by (simp add: select_consultations_def consultations_select_policy_def
      users_can_view_their_own_consultations_def admins_can_view_all_consultations_def)

text \<open>
  C4 at the example: the owner and the administrator see the row, another user and an
  unauthenticated request do not.
\<close>

theorem select_consultations_iff_witness:
  "example_consultation \<in> set (select_consultations example_db (Some 1))
   \<and> example_consultation \<in> set (select_consultations example_db (Some 2))
   \<and> example_consultation \<notin> set (select_consultations example_db (Some 3))
   \<and> select_consultations example_db (Some 3) = []
   \<and> example_consultation \<notin> set (select_consultations example_db None)"
proof -
  have h: "example_consultation \<in> set (consultations example_db)"
    by (simp add: example_consultation_def example_db_def)
  have r: "get_current_user_role example_db (Some 1) = ''user''"
    "get_current_user_role example_db (Some 2) = ''admin''"
    "get_current_user_role example_db (Some 3) = ''user''"
    "get_current_user_role example_db None = ''user''"
    by (simp_all add: example_consultation_def example_db_def consultations_select_policy_def
        users_can_view_their_own_consultations_def admins_can_view_all_consultations_def
        get_current_user_role_def coalesce_def sql_eq_def)
  have e: "select_consultations example_db (Some 3) = []"
    by (simp add: select_consultations_def example_consultation_def example_db_def
        consultations_select_policy_def users_can_view_their_own_consultations_def
        admins_can_view_all_consultations_def get_current_user_role_def coalesce_def)
  from select_consultations_iff [OF h, of "Some 1"] select_consultations_iff [OF h, of "Some 2"]
    select_consultations_iff [OF h, of "Some 3"] select_consultations_iff [OF h, of None] r e
  show ?thesis by (simp add: example_consultation_def)
qed

subsection \<open>C5: the stored amount of a new consultation\<close>

text \<open>
  C5. A consultation created without an explicit amount should store the amount of its
  type: 50 for a video call, 40 for a telephone call, 30 for a chat. The code does so for
  a video call only. At a telephone booking \<open>handleSubmit\<close> sends no amount, the
  column default is \<open>50.00\<close> whatever the type, and the row is stored with \<open>50.00\<close>,
  while the payment page computes \<open>40\<close> for the same row.
\<close>

theorem stored_amount_ignores_type:
  "handleSubmit owner_session example_db phone_form
     = Some (Inr (example_db\<lparr>consultations := [example_consultation, phone_consultation]\<rparr>))
   \<and> c_consultation_type phone_consultation = ''phone_call''
   \<and> c_amount phone_consultation = 5000
   \<and> getConsultationTypeAmount (c_consultation_type phone_consultation) = 40"
  by (simp add: handleSubmit_def insert_consultation_def consultation_defaults_def
      users_can_create_their_own_consultations_def consultation_checks_def Let_def
      example_consultation_def example_db_def owner_session_def phone_form_def
      phone_consultation_def getConsultationTypeAmount_def)

subsection \<open>C6: the updated timestamp\<close>

text \<open>
  C6 as stated fails. The insert policy checks \<open>user_id\<close> only, so a user may insert
  a row with an explicit \<open>updated_at\<close> of 900 at time 200; the accepted update at time
  300 then sets \<open>updated_at\<close> to 300, which is earlier.
\<close>

theorem updated_at_counterexample:
  "insert_consultation owner_session example_db
     [Set_user_id 1, Set_doctor_name ''Dr. Jones'', Set_consultation_type ''phone_call'',
      Set_preferred_date 20001, Set_preferred_time 900, Set_symptoms ''headache'',
      Set_updated_at 900]
     = Inr (example_db\<lparr>consultations := [example_consultation, postdated_consultation]\<rparr>)
   \<and> update_consultations later_session
        (example_db\<lparr>consultations := [example_consultation, postdated_consultation]\<rparr>)
        [Set_payment_status ''paid'', Set_bank_account_id (Some 5)] 77
     = Inr (example_db\<lparr>consultations :=
                         [example_consultation,
                          postdated_consultation\<lparr>c_payment_status := ''paid'',
                                                 c_bank_account_id := Some 5,
                                                 c_updated_at := 300\<rparr>]\<rparr>, 1)
   \<and> c_updated_at postdated_consultation = 900
   \<and> \<not> c_updated_at postdated_consultation
         < c_updated_at (postdated_consultation\<lparr>c_payment_status := ''paid'',
                                                 c_bank_account_id := Some 5,
                                                 c_updated_at := 300\<rparr>)"
  by (simp add: insert_consultation_def consultation_defaults_def
      users_can_create_their_own_consultations_def consultation_checks_def Let_def
      example_consultation_def example_db_def owner_session_def phone_consultation_def
      postdated_consultation_def later_session_def consultations_select_policy_def
      consultations_update_policy_def users_can_view_their_own_consultations_def
      admins_can_view_all_consultations_def users_can_update_their_own_consultations_def
      admins_can_update_all_consultations_def get_current_user_role_def coalesce_def
      update_consultations_def new_consultation_def update_updated_at_column_def
      notify_consultation_status_change_def notification_title_def notification_message_def
      sql_concat_def notification_insert_error_def)

text \<open>
  C6, amended. After an accepted update of a stored consultation the written row has
  \<open>updated_at = now()\<close>, so the timestamp has strictly increased whenever the stored
  value was earlier than \<open>now()\<close>; an update that writes no row leaves the database,
  and so the timestamp, as it was.
\<close>

theorem updated_at_is_now:
  assumes "distinct (map c_id (consultations d))" and "c \<in> set (consultations d)"
  shows "(update_consultations s d sets (c_id c) = Inr (d', Suc 0) \<longrightarrow>
            consultations d' =
              map (\<lambda>x. if c_id x = c_id c then new_consultation s sets c else x) (consultations d)
            \<and> c_updated_at (new_consultation s sets c) = now s
            \<and> (c_updated_at c < now s \<longrightarrow>
                 c_updated_at c < c_updated_at (new_consultation s sets c)))
       \<and> (update_consultations s d sets (c_id c) = Inr (d', 0) \<longrightarrow> d' = d)"
proof -
  have now: "c_updated_at (new_consultation s sets c) = now s"
    by (simp add: new_consultation_def update_updated_at_column_def)
  have acc: "consultations d' =
       map (\<lambda>x. if c_id x = c_id c then new_consultation s sets c else x) (consultations d)"
    if "update_consultations s d sets (c_id c) = Inr (d', Suc 0)"
    using update_consultations_cases [OF assms that] by auto
  have rej: "d' = d" if "update_consultations s d sets (c_id c) = Inr (d', 0)"
    using update_consultations_cases [OF assms that] by auto
  from now acc rej show ?thesis by simp
qed

text \<open>
  C6 amended, at the example: an accepted and a zero-row update.
\<close>

theorem updated_at_is_now_witness:
  "update_consultations admin_session example_db [Set_status ''approved'']
        (c_id example_consultation) = Inr (approved_db, Suc 0)
   \<and> map c_updated_at (consultations example_db) = [100]
   \<and> map c_updated_at (consultations approved_db) = [200]
   \<and> update_consultations other_session example_db [Set_status ''approved'']
        (c_id example_consultation) = Inr (example_db, 0)"
proof -
  have h1: "distinct (map c_id (consultations example_db))"
    by (simp add: example_consultation_def example_db_def admin_session_def other_session_def)
  have h2: "example_consultation \<in> set (consultations example_db)"
    by (simp add: example_consultation_def example_db_def admin_session_def other_session_def)
  have h3: "update_consultations admin_session example_db [Set_status ''approved'']
        (c_id example_consultation) = Inr (approved_db, Suc 0)"
    by (simp add: example_consultation_def example_db_def admin_session_def other_session_def
        approved_notification_def approved_db_def consultations_select_policy_def
        consultations_update_policy_def users_can_view_their_own_consultations_def
        admins_can_view_all_consultations_def users_can_update_their_own_consultations_def
        admins_can_update_all_consultations_def get_current_user_role_def coalesce_def
        update_consultations_def new_consultation_def update_updated_at_column_def
        consultation_checks_def notify_consultation_status_change_def notification_title_def
        notification_message_def sql_concat_def notification_insert_error_def Let_def)
  have h4: "update_consultations other_session example_db [Set_status ''approved'']
        (c_id example_consultation) = Inr (example_db, 0)"
    by (simp add: example_consultation_def example_db_def admin_session_def other_session_def
        consultations_select_policy_def consultations_update_policy_def
        users_can_view_their_own_consultations_def admins_can_view_all_consultations_def
        users_can_update_their_own_consultations_def admins_can_update_all_consultations_def
        get_current_user_role_def coalesce_def update_consultations_def new_consultation_def
        update_updated_at_column_def consultation_checks_def
        notify_consultation_status_change_def notification_title_def notification_message_def
        sql_concat_def notification_insert_error_def Let_def)
  from updated_at_is_now [OF h1 h2, of admin_session "[Set_status ''approved'']" approved_db]
    updated_at_is_now [OF h1 h2, of other_session "[Set_status ''approved'']" example_db] h3 h4
  show ?thesis
    by (simp add: example_consultation_def example_db_def admin_session_def other_session_def
        approved_notification_def approved_db_def new_consultation_def
        update_updated_at_column_def)
qed

subsection \<open>C7: the owner column\<close>

text \<open>
  C7 as stated fails. The administrator assigns \<open>user_id\<close> of the consultation of
  user 1 to user 3: the policy \<open>Admins can update all consultations\<close> holds of the old
  and of the new row, and the row is written with the new owner.
\<close>

theorem user_id_counterexample:
  "get_current_user_role example_db (auth_uid admin_session) = ''admin''
   \<and> update_consultations admin_session example_db [Set_user_id 3] 10
       = Inr (example_db\<lparr>consultations :=
                           [example_consultation\<lparr>c_user_id := 3, c_updated_at := 200\<rparr>]\<rparr>, 1)
   \<and> c_user_id example_consultation = 1
   \<and> c_user_id (example_consultation\<lparr>c_user_id := 3, c_updated_at := 200\<rparr>) \<noteq> 1"
  by (simp add: example_consultation_def example_db_def admin_session_def
      consultations_select_policy_def consultations_update_policy_def
      users_can_view_their_own_consultations_def admins_can_view_all_consultations_def
      users_can_update_their_own_consultations_def admins_can_update_all_consultations_def
      get_current_user_role_def coalesce_def update_consultations_def new_consultation_def
      update_updated_at_column_def consultation_checks_def notify_consultation_status_change_def
      notification_title_def notification_message_def sql_concat_def
      notification_insert_error_def Let_def)

text \<open>
  C7, amended. An update of a stored consultation that does not assign \<open>user_id\<close>,
  and every update by an actor who is not an administrator, leaves the \<open>user_id\<close> of
  every row as it was.
\<close>

theorem user_id_frame:
  assumes "distinct (map c_id (consultations d))" and "c \<in> set (consultations d)"
    and "update_consultations s d sets (c_id c) = Inr (d', k)"
    and "get_current_user_role d (auth_uid s) \<noteq> ''admin'' \<or> \<not> list_ex is_Set_user_id sets"
  shows "map c_user_id (consultations d') = map c_user_id (consultations d)"
proof -
  let ?NEW = "new_consultation s sets c"
  from update_consultations_cases [OF assms(1-3)]
  consider (skipped) "d' = d"
    | (written) "auth_uid s = Some (c_user_id c) \<or> get_current_user_role d (auth_uid s) = ''admin''"
        "auth_uid s = Some (c_user_id ?NEW) \<or> get_current_user_role d (auth_uid s) = ''admin''"
        "consultations d' = map (\<lambda>x. if c_id x = c_id c then ?NEW else x) (consultations d)"
    by auto
  then show ?thesis
  proof cases
    case skipped
    then show ?thesis by simp
  next
    case written
    have same: "c_user_id ?NEW = c_user_id c"
    proof (cases "get_current_user_role d (auth_uid s) = ''admin''")
      case True
      with assms(4) have "\<not> list_ex is_Set_user_id sets" by simp
      then show ?thesis
        by (simp add: new_consultation_def update_updated_at_column_def fold_assign_user_id)
    next
      case False
      with written(1,2) show ?thesis by simp
    qed
    show ?thesis
      unfolding written(3) using assms(1,2) same by (rule replace_key_map)
  qed
qed

text \<open>
  C7 amended, at the example: the owner confirms payment; the owner's attempt to give
  the row to user 3 is refused.
\<close>

theorem user_id_frame_witness:
  "update_consultations owner_session example_db
      [Set_payment_status ''paid'', Set_bank_account_id (Some 5)] (c_id example_consultation)
     = Inr (example_db\<lparr>consultations :=
                         [example_consultation\<lparr>c_payment_status := ''paid'',
                                               c_bank_account_id := Some 5,
                                               c_updated_at := 200\<rparr>]\<rparr>, 1)
   \<and> map c_user_id
        (consultations
           (example_db\<lparr>consultations :=
                         [example_consultation\<lparr>c_payment_status := ''paid'',
                                               c_bank_account_id := Some 5,
                                               c_updated_at := 200\<rparr>]\<rparr>))
      = map c_user_id (consultations example_db)
   \<and> update_consultations owner_session example_db [Set_user_id 3] (c_id example_consultation)
      = Inl Insufficient_Privilege"
proof -
  have h1: "distinct (map c_id (consultations example_db))"
    by (simp add: example_consultation_def example_db_def owner_session_def)
  have h2: "example_consultation \<in> set (consultations example_db)"
    by (simp add: example_consultation_def example_db_def owner_session_def)
  have h3: "update_consultations owner_session example_db
      [Set_payment_status ''paid'', Set_bank_account_id (Some 5)] (c_id example_consultation)
     = Inr (example_db\<lparr>consultations :=
                         [example_consultation\<lparr>c_payment_status := ''paid'',
                                               c_bank_account_id := Some 5,
                                               c_updated_at := 200\<rparr>]\<rparr>, 1)"
    by (simp add: example_consultation_def example_db_def owner_session_def
        consultations_select_policy_def consultations_update_policy_def
        users_can_view_their_own_consultations_def admins_can_view_all_consultations_def
        users_can_update_their_own_consultations_def admins_can_update_all_consultations_def
        get_current_user_role_def coalesce_def update_consultations_def new_consultation_def
        update_updated_at_column_def consultation_checks_def
        notify_consultation_status_change_def notification_title_def notification_message_def
        sql_concat_def notification_insert_error_def Let_def)
  have h4: "get_current_user_role example_db (auth_uid owner_session) \<noteq> ''admin''
            \<or> \<not> list_ex is_Set_user_id [Set_payment_status ''paid'', Set_bank_account_id (Some 5)]"
    by simp
  have h5: "update_consultations owner_session example_db [Set_user_id 3]
              (c_id example_consultation) = Inl Insufficient_Privilege"
    by (simp add: example_consultation_def example_db_def owner_session_def
        consultations_select_policy_def consultations_update_policy_def
        users_can_view_their_own_consultations_def admins_can_view_all_consultations_def
        users_can_update_their_own_consultations_def admins_can_update_all_consultations_def
        get_current_user_role_def coalesce_def update_consultations_def new_consultation_def
        update_updated_at_column_def consultation_checks_def
        notify_consultation_status_change_def notification_title_def notification_message_def
        sql_concat_def notification_insert_error_def Let_def)
  from user_id_frame [OF h1 h2 h3 h4] h3 h5 show ?thesis by simp
qed

subsection \<open>C8: notifications belong to their owner alone\<close>

text \<open>
  C8. A stored notification is among the rows a read by \<open>a\<close> returns if and only if
  \<open>a\<close> is its owner; marking it read writes the row if the session's user is its owner
  and otherwise writes no row; and no update whatever by anyone else, an administrator
  included, writes a row.
\<close>

theorem notifications_owner_only:
  assumes "distinct (map n_id (notifications d))" and "n \<in> set (notifications d)"
  shows "(n \<in> set (select_notifications d a) \<longleftrightarrow> a = Some (n_user_id n))
       \<and> update_notifications s d [Set_is_read True] (n_id n) =
           (if auth_uid s = Some (n_user_id n)
            then Inr (d\<lparr>notifications :=
                          map (\<lambda>m. if n_id m = n_id n then n\<lparr>n_is_read := True\<rparr> else m)
                            (notifications d)\<rparr>, 1)
            else Inr (d, 0))
       \<and> (auth_uid s \<noteq> Some (n_user_id n) \<longrightarrow>
            update_notifications s d sets (n_id n) = Inr (d, 0))"
proof -
  have f: "List.find (\<lambda>x. n_id x = n_id n) (notifications d) = Some n"
    using assms by (rule find_key)
  have sel: "n \<in> set (select_notifications d a) \<longleftrightarrow> a = Some (n_user_id n)"
    using assms(2) by (simp add: select_notifications_def
        users_can_view_their_own_notifications_def)
  have mark: "update_notifications s d [Set_is_read True] (n_id n) =
           (if auth_uid s = Some (n_user_id n)
            then Inr (d\<lparr>notifications :=
                          map (\<lambda>m. if n_id m = n_id n then n\<lparr>n_is_read := True\<rparr> else m)
                            (notifications d)\<rparr>, 1)
            else Inr (d, 0))"
    unfolding update_notifications_def f
    by (simp add: users_can_view_their_own_notifications_def
        users_can_update_their_own_notifications_def)
  have deny: "auth_uid s \<noteq> Some (n_user_id n) \<longrightarrow>
            update_notifications s d sets (n_id n) = Inr (d, 0)"
    unfolding update_notifications_def f
    by (simp add: users_can_view_their_own_notifications_def)
  from sel mark deny show ?thesis by blast
qed

text \<open>
  C8 at the example: the owner reads and marks the notification; the administrator gets
  no row either way.
\<close>

theorem notifications_owner_only_witness:
  "select_notifications notified_db (Some 1) = [declined_notification]
   \<and> get_current_user_role notified_db (Some 2) = ''admin''
   \<and> select_notifications notified_db (Some 2) = []
   \<and> update_notifications owner_session notified_db [Set_is_read True] 78
       = Inr (notified_db\<lparr>notifications := [declined_notification\<lparr>n_is_read := True\<rparr>]\<rparr>, 1)
   \<and> update_notifications admin_session notified_db [Set_is_read True] 78
       = Inr (notified_db, 0)"
proof -
  have h1: "distinct (map n_id (notifications notified_db))"
    by (simp add: declined_notification_def notified_db_def select_notifications_def
        update_notifications_def users_can_view_their_own_notifications_def
        users_can_update_their_own_notifications_def)
  have h2: "declined_notification \<in> set (notifications notified_db)"
    by (simp add: declined_notification_def notified_db_def select_notifications_def
        update_notifications_def users_can_view_their_own_notifications_def
        users_can_update_their_own_notifications_def)
  have sel: "select_notifications notified_db (Some 1) = [declined_notification]"
    "select_notifications notified_db (Some 2) = []"
    by (simp_all add: declined_notification_def notified_db_def select_notifications_def
        update_notifications_def users_can_view_their_own_notifications_def
        users_can_update_their_own_notifications_def)
  have r: "get_current_user_role notified_db (Some 2) = ''admin''"
    by (simp add: declined_notification_def notified_db_def select_notifications_def
        update_notifications_def users_can_view_their_own_notifications_def
        users_can_update_their_own_notifications_def example_consultation_def example_db_def
        owner_session_def admin_session_def get_current_user_role_def coalesce_def)
  from notifications_owner_only [OF h1 h2, of "Some 1" owner_session "[Set_is_read True]"]
    notifications_owner_only [OF h1 h2, of "Some 2" admin_session "[Set_is_read True]"] sel r
  show ?thesis
    by (simp add: declined_notification_def notified_db_def owner_session_def admin_session_def)
qed

subsection \<open>C9: a user may change their own role\<close>

text \<open>
  C9. A user whose profile row has the role \<open>user\<close> updates that row, setting
  \<open>role\<close> to \<open>admin\<close>: the update writes the row, and \<open>get_current_user_role()\<close>,
  which was \<open>user\<close>, is \<open>admin\<close> afterwards.
\<close>

theorem own_role_escalation:
  assumes "distinct (map p_user_id (profiles d))" and "p \<in> set (profiles d)"
    and "p_role p = ''user''" and "auth_uid s = Some (p_user_id p)"
  shows "get_current_user_role d (auth_uid s) = ''user''
       \<and> update_profiles s d [Set_role ''admin''] (p_user_id p) =
           Inr (d\<lparr>profiles :=
                    map (\<lambda>q. if p_user_id q = p_user_id p
                              then p\<lparr>p_role := ''admin'', p_updated_at := now s\<rparr> else q)
                      (profiles d)\<rparr>, 1)
       \<and> get_current_user_role
            (d\<lparr>profiles :=
                    map (\<lambda>q. if p_user_id q = p_user_id p
                              then p\<lparr>p_role := ''admin'', p_updated_at := now s\<rparr> else q)
                      (profiles d)\<rparr>) (auth_uid s) = ''admin''"
proof -
  have f: "List.find (\<lambda>x. p_user_id x = p_user_id p) (profiles d) = Some p"
    using assms(1,2) by (rule find_key)
  have before: "get_current_user_role d (auth_uid s) = ''user''"
    using assms(3,4) by (simp add: get_current_user_role_Some f)
  have upd: "update_profiles s d [Set_role ''admin''] (p_user_id p) =
           Inr (d\<lparr>profiles :=
                    map (\<lambda>q. if p_user_id q = p_user_id p
                              then p\<lparr>p_role := ''admin'', p_updated_at := now s\<rparr> else q)
                      (profiles d)\<rparr>, 1)"
    using assms(4)
    by (simp add: update_profiles_def f users_can_view_their_own_profile_def
        users_can_update_their_own_profile_def update_updated_at_column_profiles_def
        profile_checks_def)
  have g: "List.find (\<lambda>x. p_user_id x = p_user_id p)
             (map (\<lambda>q. if p_user_id q = p_user_id p
                        then p\<lparr>p_role := ''admin'', p_updated_at := now s\<rparr> else q) (profiles d))
           = Some (p\<lparr>p_role := ''admin'', p_updated_at := now s\<rparr>)"
    using assms(2) by (rule find_replace_key) simp
  have after: "get_current_user_role
            (d\<lparr>profiles :=
                    map (\<lambda>q. if p_user_id q = p_user_id p
                              then p\<lparr>p_role := ''admin'', p_updated_at := now s\<rparr> else q)
                      (profiles d)\<rparr>) (auth_uid s) = ''admin''"
    using assms(4) by (simp add: get_current_user_role_Some g)
  from before upd after show ?thesis by blast
qed

text \<open>
  C9 at the example: a user provisioned by \<open>handle_new_user()\<close> with an ordinary
  address.
\<close>

theorem own_role_escalation_witness:
  "profiles provisioned_db = profiles example_db @ [new_user_profile]
   \<and> get_current_user_role provisioned_db (Some 4) = ''user''
   \<and> update_profiles new_user_session provisioned_db [Set_role ''admin''] 4
       = Inr (provisioned_db\<lparr>profiles :=
                profiles example_db
                @ [new_user_profile\<lparr>p_role := ''admin'', p_updated_at := 500\<rparr>]\<rparr>, 1)
   \<and> get_current_user_role
        (provisioned_db\<lparr>profiles :=
                profiles example_db
                @ [new_user_profile\<lparr>p_role := ''admin'', p_updated_at := 500\<rparr>]\<rparr>) (Some 4)
       = ''admin''"
proof -
  note pp = provisioned_profiles
  have h1: "distinct (map p_user_id (profiles provisioned_db))"
    by (simp add: pp example_db_def new_user_profile_def)
  have h2: "new_user_profile \<in> set (profiles provisioned_db)"
    by (simp add: pp)
  have h3: "p_role new_user_profile = ''user''"
    by (simp add: new_user_profile_def)
  have h4: "auth_uid new_user_session = Some (p_user_id new_user_profile)"
    by (simp add: new_user_session_def new_user_profile_def)
  have m: "map (\<lambda>q. if p_user_id q = p_user_id new_user_profile
                     then new_user_profile\<lparr>p_role := ''admin'', p_updated_at := now new_user_session\<rparr>
                     else q) (profiles provisioned_db)
           = profiles example_db @ [new_user_profile\<lparr>p_role := ''admin'', p_updated_at := 500\<rparr>]"
    by (simp add: pp example_db_def new_user_profile_def new_user_session_def)
  from own_role_escalation [OF h1 h2 h3 h4] pp show ?thesis
    unfolding m by (simp add: new_user_session_def new_user_profile_def)
qed

subsection \<open>C10: confirming payment has no precondition\<close>

text \<open>
  C10. For every stored consultation, whatever its status and payment status,
  \<open>confirmPayment\<close> by its owner writes the row with \<open>payment_status = 'paid'\<close> and
  the selected bank account.
\<close>

theorem confirm_payment_unconditional:
  assumes "distinct (map c_id (consultations d))" and "c \<in> set (consultations d)"
    and "auth_uid s = Some (c_user_id c)" and "consultation_checks c"
  shows "confirmPayment s d (Some c) (Some bank) =
           Some (Inr (d\<lparr>consultations :=
                         map (\<lambda>x. if c_id x = c_id c
                                   then c\<lparr>c_payment_status := ''paid'',
                                          c_bank_account_id := Some bank,
                                          c_updated_at := now s\<rparr>
                                   else x) (consultations d)\<rparr>, 1))"
proof -
  have f: "List.find (\<lambda>x. c_id x = c_id c) (consultations d) = Some c"
    using assms(1,2) by (rule find_key)
  show ?thesis
    using assms(3,4)
    by (simp add: confirmPayment_def update_consultations_def f consultations_select_policy_def
        consultations_update_policy_def users_can_view_their_own_consultations_def
        admins_can_view_all_consultations_def users_can_update_their_own_consultations_def
        admins_can_update_all_consultations_def get_current_user_role_def coalesce_def
        new_consultation_def update_updated_at_column_def consultation_checks_def
        notify_consultation_status_change_def)
qed

text \<open>
  C10 at the example: a declined and refunded consultation is marked paid.
\<close>

theorem confirm_payment_unconditional_witness:
  "c_status closed_consultation = ''declined''
   \<and> c_payment_status closed_consultation = ''refunded''
   \<and> confirmPayment owner_session closed_db (Some closed_consultation) (Some 5)
       = Some (Inr (closed_db\<lparr>consultations :=
                               [closed_consultation\<lparr>c_payment_status := ''paid'',
                                                    c_bank_account_id := Some 5,
                                                    c_updated_at := 200\<rparr>]\<rparr>, 1))"
proof -
  have h1: "distinct (map c_id (consultations closed_db))"
    by (simp add: closed_db_def)
  have h2: "closed_consultation \<in> set (consultations closed_db)"
    by (simp add: closed_db_def)
  have h3: "auth_uid owner_session = Some (c_user_id closed_consultation)"
    by (simp add: closed_consultation_def example_consultation_def example_db_def owner_session_def)
  have h4: "consultation_checks closed_consultation"
    by (simp add: closed_consultation_def example_consultation_def example_db_def
        owner_session_def consultation_checks_def)
  from confirm_payment_unconditional [OF h1 h2 h3 h4, of 5] show ?thesis
    by (simp add: closed_db_def closed_consultation_def example_consultation_def example_db_def
        owner_session_def)
qed

end
